theory Spec2Isabelle
  imports Main
begin

section \<open>Instants and the Date operations the controllers use\<close>

text \<open>
  A JavaScript Date is a number of milliseconds since the epoch, or the Invalid Date.
  The controllers read and write dates through the local-time accessors (getDay, setHours,
  getMinutes, setMinutes). The model reads an instant as milliseconds on the server's
  local time line, a zone with a fixed offset and no daylight-saving jumps, so that a
  local day is a block of 86400000 ms and the accessors are plain arithmetic.
\<close>

type_synonym instant = int

datatype js_date = InvalidDate | Date instant

text \<open>
  A time value beyond 8.64e15 ms on either side of the epoch is no date: Date arithmetic
  that leaves this range gives the Invalid Date. The model takes the limit on its own
  time line.
\<close>

definition maxTime :: int where
  "maxTime = 8640000000000000"

definition timeClip :: "int \<Rightarrow> js_date" where
  "timeClip t = (if - maxTime \<le> t \<and> t \<le> maxTime then Date t else InvalidDate)"

definition msPerMinute :: int where
  "msPerMinute = 60000"

definition msPerHour :: int where
  "msPerHour = 3600000"

definition msPerDay :: int where
  "msPerDay = 86400000"

text \<open>Date.prototype.getDay: 0 is Sunday; 1 January 1970 was a Thursday.\<close>

definition getDay :: "instant \<Rightarrow> int" where
  "getDay t = (t div msPerDay + 4) mod 7"

text \<open>Date.prototype.setHours(hour, min, sec, ms): the day is kept, the time of day replaced.\<close>

definition setHours :: "instant \<Rightarrow> int \<Rightarrow> int \<Rightarrow> int \<Rightarrow> int \<Rightarrow> instant" where
  "setHours t h m s ms = (t div msPerDay) * msPerDay + h * msPerHour + m * msPerMinute + s * 1000 + ms"

definition getMinutes :: "instant \<Rightarrow> int" where
  "getMinutes t = (t div msPerMinute) mod 60"

text \<open>Date.prototype.setMinutes(min): only the minute field is replaced; a value outside
  0..59 carries into the hours and days.\<close>

definition setMinutes :: "instant \<Rightarrow> int \<Rightarrow> instant" where
  "setMinutes t m = t - getMinutes t * msPerMinute + m * msPerMinute"

section \<open>Documents\<close>

text \<open>
  models/User.js, as far as the appointment controllers read it: the id and the role
  (one of patient, doctor, admin).
\<close>

record user_doc =
  user_id :: nat
  role :: string

text \<open>
  models/Doctor.js, availabilitySlotSchema. The time strings "HH:MM" are kept in the form
  in which getSlots uses them, the pair of numbers that split(':').map(Number) yields.
\<close>

record availabilitySlot =
  dayOfWeek :: int
  startTime :: "int \<times> int"
  endTime :: "int \<times> int"
  isAvailable :: bool

text \<open>models/Doctor.js, the fields the slot and booking logic reads.\<close>

record doctor_doc =
  doctor_id :: nat
  user :: nat
  availability :: "availabilitySlot list"
  slotDuration :: int
  acceptingNewPatients :: bool
  consultationFee :: int

text \<open>
  models/Appointment.js. The nested paths notes.patient, notes.doctor, fee.amount, fee.paid,
  fee.paidAt, reminders.email and reminders.sms are flattened; an absent value is None.
  The end time is named appt_endTime, since endTime is the availability field.
  The schema option \<open>timestamps: true\<close> adds the stamps createdAt and updatedAt.
\<close>

record appointment_doc =
  appt_id :: nat
  patient :: nat
  doctor :: nat
  dateTime :: instant
  appt_endTime :: instant
  status :: string
  type :: string
  reason :: string
  symptoms :: "string list"
  notes_patient :: "string option"
  notes_doctor :: "string option"
  prescription :: "string option"
  fee_amount :: "int option"
  fee_paid :: bool
  fee_paidAt :: "instant option"
  reminders_email :: bool
  reminders_sms :: bool
  cancelledBy :: "string option"
  cancellationReason :: "string option"
  createdAt :: instant
  updatedAt :: instant

text \<open>
  The database: the two collections, and whether it holds the unique index that
  models/Appointment.js declares for the appointments (the build of an index can fail).
  No operation of the repository deletes a user or a doctor, so a populated reference
  patient._id or doctor._id is the stored id.
\<close>

record store =
  doctors :: "doctor_doc list"
  appointments :: "appointment_doc list"
  uniqueIndexBuilt :: bool

section \<open>models/Appointment.js: isSlotAvailable\<close>

text \<open>
  The query \<open>{doctor, dateTime, status: {$nin: ['cancelled']}}\<close>, with
  \<open>_id: {$ne: excludeId}\<close> added when excludeId is given; findOne returns the first
  match or null, and the method returns \<open>!existing\<close>.
\<close>

definition slotQuery :: "nat \<Rightarrow> instant \<Rightarrow> nat option \<Rightarrow> appointment_doc \<Rightarrow> bool" where
  "slotQuery doctorId dt excludeId a =
     (doctor a = doctorId \<and> dateTime a = dt \<and> status a \<notin> set [''cancelled''] \<and>
      (case excludeId of None \<Rightarrow> True | Some e \<Rightarrow> appt_id a \<noteq> e))"

definition isSlotAvailable :: "appointment_doc list \<Rightarrow> nat \<Rightarrow> instant \<Rightarrow> nat option \<Rightarrow> bool" where
  "isSlotAvailable apps doctorId dt excludeId =
     (case find (slotQuery doctorId dt excludeId) apps of None \<Rightarrow> True | Some existing \<Rightarrow> False)"

section \<open>controllers/doctorController.js: getSlots\<close>

text \<open>
  A response is \<open>res.status(code).json(...)\<close> with a payload or with an error message, or
  the error handed to \<open>next(err)\<close> by the catch block.
\<close>

datatype error = CastError | ValidationError | DuplicateKey

datatype 'a response = Success nat 'a | Failure nat string | Next error

definition findById :: "('a \<Rightarrow> nat) \<Rightarrow> 'a list \<Rightarrow> nat \<Rightarrow> 'a option" where
  "findById idOf docs i = find (\<lambda>d. idOf d = i) docs"

text \<open>
  \<open>doctor.availability.find(a => a.dayOfWeek === dayOfWeek && a.isAvailable)\<close>. The weekday of
  the Invalid Date is NaN, which is equal to no number.
\<close>

definition dayAvailability :: "doctor_doc \<Rightarrow> js_date \<Rightarrow> availabilitySlot option" where
  "dayAvailability doc requestedDate =
     (case requestedDate of
        InvalidDate \<Rightarrow> None
      | Date t \<Rightarrow> find (\<lambda>a. dayOfWeek a = getDay t \<and> isAvailable a) (availability doc))"

text \<open>
  The loop \<open>while (current < endTime) { slots.push(new Date(current));
  current.setMinutes(current.getMinutes() + doctor.slotDuration) }\<close>. Nothing in the loop
  bounds the number of rounds, so the model is a partial function: None is a loop that
  never ends.
\<close>

partial_function (option) slotLoop :: "instant \<Rightarrow> instant \<Rightarrow> int \<Rightarrow> instant list \<Rightarrow> instant list option" where
  "slotLoop current endT duration slots =
     (if current < endT
      then slotLoop (setMinutes current (getMinutes current + duration)) endT duration (slots @ [current])
      else Some slots)"

declare slotLoop.simps [code]

text \<open>Lines 50 to 62: the start and end instants of the window on the requested day, then the loop.\<close>

definition windowSlots :: "doctor_doc \<Rightarrow> instant \<Rightarrow> availabilitySlot \<Rightarrow> instant list option" where
  "windowSlots doc requestedDate av =
     (case startTime av of (startHour, startMin) \<Rightarrow>
      case endTime av of (endHour, endMin) \<Rightarrow>
        slotLoop (setHours requestedDate startHour startMin 0 0)
                 (setHours requestedDate endHour endMin 0 0)
                 (slotDuration doc) [])"

text \<open>Lines 45 to 62, the slot generator: no enabled entry for the weekday gives no slots.\<close>

definition generateSlots :: "doctor_doc \<Rightarrow> js_date \<Rightarrow> instant list option" where
  "generateSlots doc requestedDate =
     (case dayAvailability doc requestedDate of
        None \<Rightarrow> Some []
      | Some av \<Rightarrow>
          (case requestedDate of
             InvalidDate \<Rightarrow> Some []
           | Date t \<Rightarrow> windowSlots doc t av))"

text \<open>One element of the response: the slot and its display string.\<close>

record slot_view =
  slot_dateTime :: instant
  formatted :: string

text \<open>
  The query for the booked appointments of the day. \<open>requestedDate.setHours(0, 0, 0, 0)\<close>
  changes requestedDate itself, and the end of the day is taken from the changed date.
\<close>

definition bookedTimes :: "appointment_doc list \<Rightarrow> nat \<Rightarrow> instant \<Rightarrow> instant list" where
  "bookedTimes apps doctorId requestedDate =
     (let startOfDay = setHours requestedDate 0 0 0 0;
          endOfDay = setHours startOfDay 23 59 59 999
      in map dateTime
           (filter (\<lambda>a. doctor a = doctorId \<and> startOfDay \<le> dateTime a \<and> dateTime a \<le> endOfDay \<and>
                         status a \<notin> set [''cancelled'']) apps))"

text \<open>
  \<open>slots.filter(slot => !bookedTimes.includes(slot.getTime()) && slot > new Date())\<close>.
  The clock is read anew for each candidate that is not booked: \<open>clock k\<close> is the reading
  for the candidate at position k.
\<close>

fun filterSlots :: "(nat \<Rightarrow> instant) \<Rightarrow> nat \<Rightarrow> instant list \<Rightarrow> instant list \<Rightarrow> instant list" where
  "filterSlots clock k booked [] = []"
| "filterSlots clock k booked (slot # rest) =
     (if slot \<notin> set booked \<and> slot > clock k
      then slot # filterSlots clock (Suc k) booked rest
      else filterSlots clock (Suc k) booked rest)"

text \<open>
  Lines 64 to 80, the filtering step. The display string comes from toLocaleTimeString of
  the runtime, taken as a parameter.
\<close>

definition filterAvailable ::
  "(instant \<Rightarrow> string) \<Rightarrow> (nat \<Rightarrow> instant) \<Rightarrow> appointment_doc list \<Rightarrow> nat \<Rightarrow> instant \<Rightarrow>
   instant list \<Rightarrow> slot_view list" where
  "filterAvailable toLocaleTimeString clock apps doctorId requestedDate slots =
     map (\<lambda>slot. \<lparr>slot_dateTime = slot, formatted = toLocaleTimeString slot\<rparr>)
       (filterSlots clock 0 (bookedTimes apps doctorId requestedDate) slots)"

text \<open>The handler. The query parameter date is None when it is missing or empty.\<close>

definition getSlots ::
  "(instant \<Rightarrow> string) \<Rightarrow> (nat \<Rightarrow> instant) \<Rightarrow> store \<Rightarrow> nat \<Rightarrow> js_date option \<Rightarrow>
   slot_view list response option" where
  "getSlots toLocaleTimeString clock st doctorId date =
     (case date of
        None \<Rightarrow> Some (Failure 400 ''Date is required'')
      | Some requestedDate \<Rightarrow>
          (case findById doctor_id (doctors st) doctorId of
             None \<Rightarrow> Some (Failure 404 ''Doctor not found'')
           | Some doc \<Rightarrow>
               (case dayAvailability doc requestedDate of
                  None \<Rightarrow> Some (Success 200 [])
                | Some av \<Rightarrow>
                    (case requestedDate of
                       InvalidDate \<Rightarrow> Some (Success 200 [])
                     | Date t \<Rightarrow>
                         (case windowSlots doc t av of
                            None \<Rightarrow> None
                          | Some slots \<Rightarrow>
                              Some (Success 200
                                (filterAvailable toLocaleTimeString clock (appointments st)
                                   (doctor_id doc) t slots)))))))"

section \<open>The appointments collection and its unique index\<close>

text \<open>
  models/Appointment.js, lines 72 to 76, under the comment "Prevent double booking":
  \<open>appointmentSchema.index({doctor: 1, dateTime: 1}, {unique: true,
  partialFilterExpression: {status: {$ne: 'cancelled'}}})\<close>. The declaration is data: the
  keys, the unique flag, and the condition on one field that selects the documents of the
  index.
\<close>

datatype filter_condition =
    CondEq string
  | CondNe string
  | CondExists
  | CondGt string
  | CondGte string
  | CondLt string
  | CondLte string
  | CondType string
  | CondIn "string list"
  | CondNin "string list"

record index_declaration =
  idx_keys :: "string list"
  idx_unique :: bool
  idx_filterField :: string
  idx_filterCondition :: filter_condition

definition doubleBookingIndex :: index_declaration where
  "doubleBookingIndex =
     \<lparr>idx_keys = [''doctor'', ''dateTime''], idx_unique = True,
      idx_filterField = ''status'', idx_filterCondition = CondNe ''cancelled''\<rparr>"

text \<open>
  Whether the index is built is decided by the database, which is not code of the
  repository. Its documentation of partial indexes admits in a partialFilterExpression
  equality, \<open>$exists: true\<close>, \<open>$gt\<close>, \<open>$gte\<close>, \<open>$lt\<close>, \<open>$lte\<close>, \<open>$type\<close> and
  \<open>$in\<close> (besides \<open>$and\<close> and \<open>$or\<close> of these); an index with any other operator is refused
  when it is created. The framework reports a failed build as an event of the model, to
  which nothing in the repository listens, so the server runs on without the index.
\<close>

fun partialFilterSupported :: "filter_condition \<Rightarrow> bool" where
  "partialFilterSupported (CondEq v) = True"
| "partialFilterSupported (CondNe v) = False"
| "partialFilterSupported CondExists = True"
| "partialFilterSupported (CondGt v) = True"
| "partialFilterSupported (CondGte v) = True"
| "partialFilterSupported (CondLt v) = True"
| "partialFilterSupported (CondLte v) = True"
| "partialFilterSupported (CondType v) = True"
| "partialFilterSupported (CondIn vs) = True"
| "partialFilterSupported (CondNin vs) = False"

definition indexBuilds :: "index_declaration \<Rightarrow> bool" where
  "indexBuilds decl = partialFilterSupported (idx_filterCondition decl)"

text \<open>
  The entry that the declared index holds for a document, once it is built: a document
  has an entry exactly when its status is not cancelled, and the entry is its
  (doctor, dateTime) pair. A write whose new entry equals the entry of another document
  is then refused with a duplicate-key error. Without the index no write is refused.
\<close>

definition indexEntry :: "appointment_doc \<Rightarrow> (nat \<times> instant) option" where
  "indexEntry a = (if status a \<noteq> ''cancelled'' then Some (doctor a, dateTime a) else None)"

definition duplicateKey :: "appointment_doc list \<Rightarrow> appointment_doc \<Rightarrow> bool" where
  "duplicateKey others a =
     (indexEntry a \<noteq> None \<and> (\<exists>b \<in> set others. indexEntry b = indexEntry a))"

text \<open>The _id of a new document is generated; it is different from every id in the collection.\<close>

definition newId :: "appointment_doc list \<Rightarrow> nat" where
  "newId apps = Suc (foldr max (map appt_id apps) 0)"

definition insertOne ::
  "bool \<Rightarrow> appointment_doc list \<Rightarrow> appointment_doc \<Rightarrow> error + appointment_doc list" where
  "insertOne built apps a =
     (if built \<and> duplicateKey apps a then Inl DuplicateKey else Inr (apps @ [a]))"

text \<open>
  Writing back the changed document a' in place of the stored document a: the first
  document with that _id is replaced. The _id names one document of a collection, so the
  other documents are those with another _id. The index, when there is one, is consulted
  only when the entry changes.
\<close>

fun replaceFirst :: "nat \<Rightarrow> appointment_doc \<Rightarrow> appointment_doc list \<Rightarrow> appointment_doc list" where
  "replaceFirst i a' [] = []"
| "replaceFirst i a' (b # bs) = (if appt_id b = i then a' # bs else b # replaceFirst i a' bs)"

definition replaceOne ::
  "bool \<Rightarrow> appointment_doc list \<Rightarrow> appointment_doc \<Rightarrow> appointment_doc \<Rightarrow>
   error + appointment_doc list" where
  "replaceOne built apps a a' =
     (if built \<and> indexEntry a' \<noteq> indexEntry a \<and>
         duplicateKey (filter (\<lambda>b. appt_id b \<noteq> appt_id a) apps) a'
      then Inl DuplicateKey
      else Inr (replaceFirst (appt_id a) a' apps))"

text \<open>
  The schema's validators: the enums of status, type and cancelledBy (null passes),
  reason, which is required (a non-empty string) and at most 500 long, and endTime, which
  is required and has to be a date.
\<close>

definition statusEnum :: "string list" where
  "statusEnum = [''pending'', ''confirmed'', ''completed'', ''cancelled'', ''no-show'']"

definition typeEnum :: "string list" where
  "typeEnum = [''in-person'', ''video'', ''phone'']"

definition cancelledByEnum :: "string list" where
  "cancelledByEnum = [''patient'', ''doctor'', ''system'']"

definition validCancelledBy :: "string option \<Rightarrow> bool" where
  "validCancelledBy v = (case v of None \<Rightarrow> True | Some r \<Rightarrow> r \<in> set cancelledByEnum)"

definition validReason :: "string option \<Rightarrow> bool" where
  "validReason v = (case v of None \<Rightarrow> False | Some r \<Rightarrow> r \<noteq> [] \<and> length r \<le> 500)"

definition validDate :: "js_date \<Rightarrow> bool" where
  "validDate d = (case d of InvalidDate \<Rightarrow> False | Date t \<Rightarrow> True)"

text \<open>
  Fields declared \<open>select: false\<close> (notes.doctor, prescription) are not part of a document
  that a query returns. The population of patient and doctor is not modelled: the
  returned document carries the two ids.
\<close>

definition defaultSelect :: "appointment_doc \<Rightarrow> appointment_doc" where
  "defaultSelect a = a\<lparr>notes_doctor := None, prescription := None\<rparr>"

section \<open>controllers/appointmentController.js\<close>

text \<open>
  req.body, with the fields the handlers read; None is a field that is absent. The field
  body_dateTime is the value of \<open>new Date(dateTime)\<close>.
\<close>

record body =
  body_doctorId :: "nat option"
  body_dateTime :: js_date
  body_type :: "string option"
  body_reason :: "string option"
  body_symptoms :: "string list option"
  body_notes :: "string option"
  body_status :: "string option"
  body_prescription :: "string option"

text \<open>Truthiness of a string field, and \<open>v || d\<close>.\<close>

definition truthy :: "string option \<Rightarrow> bool" where
  "truthy v = (case v of None \<Rightarrow> False | Some s \<Rightarrow> s \<noteq> [])"

definition orElse :: "string option \<Rightarrow> string \<Rightarrow> string" where
  "orElse v d = (case v of None \<Rightarrow> d | Some s \<Rightarrow> if s \<noteq> [] then s else d)"

text \<open>
  \<open>Appointment.create({...})\<close>: the document with the schema's defaults and the two
  stamps, validated, then inserted. \<open>now\<close> is the clock reading of the framework.
\<close>

definition newAppointment ::
  "instant \<Rightarrow> appointment_doc list \<Rightarrow> user_doc \<Rightarrow> nat \<Rightarrow> doctor_doc \<Rightarrow> instant \<Rightarrow> instant \<Rightarrow>
   body \<Rightarrow> appointment_doc" where
  "newAppointment now apps reqUser doctorId doc appointmentDateTime endT b =
     \<lparr>appt_id = newId apps,
      patient = user_id reqUser,
      doctor = doctorId,
      dateTime = appointmentDateTime,
      appt_endTime = endT,
      status = ''pending'',
      type = orElse (body_type b) ''in-person'',
      reason = (case body_reason b of None \<Rightarrow> [] | Some r \<Rightarrow> r),
      symptoms = (case body_symptoms b of None \<Rightarrow> [] | Some xs \<Rightarrow> xs),
      notes_patient = Some (orElse (body_notes b) []),
      notes_doctor = None,
      prescription = None,
      fee_amount = Some (consultationFee doc),
      fee_paid = False,
      fee_paidAt = None,
      reminders_email = True,
      reminders_sms = False,
      cancelledBy = None,
      cancellationReason = None,
      createdAt = now,
      updatedAt = now\<rparr>"

definition appointmentCreate ::
  "bool \<Rightarrow> appointment_doc list \<Rightarrow> body \<Rightarrow> js_date \<Rightarrow> appointment_doc \<Rightarrow>
   error + appointment_doc list" where
  "appointmentCreate built apps b endDate a =
     (if \<not> (validDate endDate \<and> type a \<in> set typeEnum \<and> validReason (body_reason b))
      then Inl ValidationError
      else insertOne built apps a)"

text \<open>
  exports.create. The route admits it for the role patient only. The end time is the
  start moved by the slot duration; when that leaves the range of Date it is the Invalid
  Date, which the validation refuses.
\<close>

definition create ::
  "instant \<Rightarrow> store \<Rightarrow> user_doc \<Rightarrow> body \<Rightarrow> appointment_doc option response \<times> store" where
  "create now st reqUser b =
     (case body_doctorId b of
        None \<Rightarrow> (Failure 404 ''Doctor not found'', st)
      | Some doctorId \<Rightarrow>
     (case findById doctor_id (doctors st) doctorId of
        None \<Rightarrow> (Failure 404 ''Doctor not found'', st)
      | Some doc \<Rightarrow>
          if \<not> acceptingNewPatients doc
          then (Failure 400 ''Doctor not accepting new patients'', st)
          else
            (case body_dateTime b of
               InvalidDate \<Rightarrow> (Next CastError, st)
             | Date appointmentDateTime \<Rightarrow>
                 if \<not> isSlotAvailable (appointments st) doctorId appointmentDateTime None
                 then (Failure 400 ''Time slot is not available'', st)
                 else
                   (let endT = setMinutes appointmentDateTime
                                 (getMinutes appointmentDateTime + slotDuration doc);
                        appointment = newAppointment now (appointments st) reqUser doctorId doc
                                        appointmentDateTime endT b
                    in case appointmentCreate (uniqueIndexBuilt st) (appointments st) b
                              (timeClip endT) appointment of
                         Inl err \<Rightarrow> (Next err, st)
                       | Inr apps' \<Rightarrow>
                           (Success 201
                              (map_option defaultSelect (findById appt_id apps' (appt_id appointment))),
                            st\<lparr>appointments := apps'\<rparr>)))))"

text \<open>The object \<open>updates\<close> of exports.update: None is a path that is not set.\<close>

record updates =
  upd_notes_patient :: "string option"
  upd_status :: "string option"
  upd_notes_doctor :: "string option"
  upd_prescription :: "string option"
  upd_cancelledBy :: "string option"
  upd_cancellationReason :: "string option"

definition noUpdates :: updates where
  "noUpdates = \<lparr>upd_notes_patient = None, upd_status = None, upd_notes_doctor = None,
                 upd_prescription = None, upd_cancelledBy = None, upd_cancellationReason = None\<rparr>"

text \<open>
  Lines 669 to 681, the object \<open>updates\<close> as it is when findByIdAndUpdate is called;
  body_reason is req.body.reason.
\<close>

definition buildUpdates :: "bool \<Rightarrow> bool \<Rightarrow> user_doc \<Rightarrow> body \<Rightarrow> updates" where
  "buildUpdates isPatient isDoctor reqUser b =
     (let u1 = (if isPatient \<and> truthy (body_notes b)
                then noUpdates\<lparr>upd_notes_patient := body_notes b\<rparr> else noUpdates);
          u2 = (if isDoctor
                then (let v1 = (if truthy (body_status b) then u1\<lparr>upd_status := body_status b\<rparr> else u1);
                          v2 = (if truthy (body_notes b) then v1\<lparr>upd_notes_doctor := body_notes b\<rparr> else v1)
                      in if truthy (body_prescription b)
                         then v2\<lparr>upd_prescription := body_prescription b\<rparr> else v2)
                else u1)
      in if body_status b = Some ''cancelled''
         then u2\<lparr>upd_status := Some ''cancelled'',
                 upd_cancelledBy := Some (role reqUser),
                 upd_cancellationReason := Some (orElse (body_reason b) [])\<rparr>
         else u2)"

definition setPath :: "'a option \<Rightarrow> 'a option \<Rightarrow> 'a option" where
  "setPath new old = (case new of None \<Rightarrow> old | Some v \<Rightarrow> Some v)"

definition applyUpdates :: "updates \<Rightarrow> appointment_doc \<Rightarrow> appointment_doc" where
  "applyUpdates u a =
     a\<lparr>notes_patient := setPath (upd_notes_patient u) (notes_patient a),
       status := (case upd_status u of None \<Rightarrow> status a | Some v \<Rightarrow> v),
       notes_doctor := setPath (upd_notes_doctor u) (notes_doctor a),
       prescription := setPath (upd_prescription u) (prescription a),
       cancelledBy := setPath (upd_cancelledBy u) (cancelledBy a),
       cancellationReason := setPath (upd_cancellationReason u) (cancellationReason a)\<rparr>"

text \<open>
  \<open>findByIdAndUpdate(id, updates, {new: true, runValidators: true})\<close>: the validators of the
  paths that are set run first. With \<open>timestamps: true\<close> the framework adds updatedAt to
  every update it sends, also to an empty one. The result is the collection and the
  document after the update, or null when no document has the id.
\<close>

definition findByIdAndUpdate ::
  "instant \<Rightarrow> bool \<Rightarrow> appointment_doc list \<Rightarrow> nat \<Rightarrow> updates \<Rightarrow>
   error + (appointment_doc list \<times> appointment_doc option)" where
  "findByIdAndUpdate now built apps i u =
     (if \<not> ((case upd_status u of None \<Rightarrow> True | Some v \<Rightarrow> v \<in> set statusEnum) \<and>
             validCancelledBy (upd_cancelledBy u))
      then Inl ValidationError
      else (case findById appt_id apps i of
              None \<Rightarrow> Inr (apps, None)
            | Some a \<Rightarrow>
                (let a' = (applyUpdates u a)\<lparr>updatedAt := now\<rparr>
                 in case replaceOne built apps a a' of
                      Inl err \<Rightarrow> Inl err
                    | Inr apps' \<Rightarrow> Inr (apps', Some (defaultSelect a')))))"

text \<open>The two relations of the requesting user to an appointment (lines 663 to 665).\<close>

definition isPatientOf :: "user_doc \<Rightarrow> appointment_doc \<Rightarrow> bool" where
  "isPatientOf reqUser a = (patient a = user_id reqUser)"

definition isDoctorOf :: "store \<Rightarrow> user_doc \<Rightarrow> appointment_doc \<Rightarrow> bool" where
  "isDoctorOf st reqUser a =
     (case find (\<lambda>d. user d = user_id reqUser) (doctors st) of
        None \<Rightarrow> False
      | Some doc \<Rightarrow> doctor a = doctor_id doc)"

text \<open>exports.update; \<open>i\<close> is req.params.id.\<close>

definition update ::
  "instant \<Rightarrow> store \<Rightarrow> user_doc \<Rightarrow> nat \<Rightarrow> body \<Rightarrow> appointment_doc option response \<times> store" where
  "update now st reqUser i b =
     (case findById appt_id (appointments st) i of
        None \<Rightarrow> (Failure 404 ''Appointment not found'', st)
      | Some appointment \<Rightarrow>
          (let isPatient = isPatientOf reqUser appointment;
               isDoctor = isDoctorOf st reqUser appointment
           in if \<not> isPatient \<and> \<not> isDoctor \<and> role reqUser \<noteq> ''admin''
              then (Failure 403 ''Not authorized'', st)
              else (case findByIdAndUpdate now (uniqueIndexBuilt st) (appointments st) i
                           (buildUpdates isPatient isDoctor reqUser b) of
                      Inl err \<Rightarrow> (Next err, st)
                    | Inr (apps', result) \<Rightarrow> (Success 200 result, st\<lparr>appointments := apps'\<rparr>))))"

text \<open>
  exports.remove: the loaded document is changed and saved. save runs the validators and,
  when a path has changed, stamps updatedAt and writes the document back; when the three
  assignments change nothing, nothing is written.
\<close>

definition remove :: "instant \<Rightarrow> store \<Rightarrow> user_doc \<Rightarrow> nat \<Rightarrow> body \<Rightarrow> unit response \<times> store" where
  "remove now st reqUser i b =
     (case findById appt_id (appointments st) i of
        None \<Rightarrow> (Failure 404 ''Appointment not found'', st)
      | Some appointment \<Rightarrow>
          if \<not> isPatientOf reqUser appointment \<and> role reqUser \<noteq> ''admin''
          then (Failure 403 ''Not authorized'', st)
          else
            (let changed = appointment\<lparr>status := ''cancelled'',
                                        cancelledBy := Some (role reqUser),
                                        cancellationReason :=
                                          Some (orElse (body_reason b) ''Cancelled by user'')\<rparr>
             in if \<not> (status changed \<in> set statusEnum \<and> validCancelledBy (cancelledBy changed))
                then (Next ValidationError, st)
                else if changed = appointment
                then (Success 200 (), st)
                else (case replaceOne (uniqueIndexBuilt st) (appointments st) appointment
                             (changed\<lparr>updatedAt := now\<rparr>) of
                        Inl err \<Rightarrow> (Next err, st)
                      | Inr apps' \<Rightarrow> (Success 200 (), st\<lparr>appointments := apps'\<rparr>))))"

text \<open>
  The stores that the handlers can produce from an empty appointments collection. The
  doctors collection is written by other handlers, which leave the appointments alone.
\<close>

inductive reachable :: "store \<Rightarrow> bool" where
  initial: "appointments st = [] \<Longrightarrow> reachable st"
| doctorsWritten: "reachable st \<Longrightarrow> reachable (st\<lparr>doctors := ds\<rparr>)"
| created: "reachable st \<Longrightarrow> create now st reqUser b = (r, st') \<Longrightarrow> reachable st'"
| updated: "reachable st \<Longrightarrow> update now st reqUser i b = (r, st') \<Longrightarrow> reachable st'"
| removed: "reachable st \<Longrightarrow> remove now st reqUser i b = (r', st') \<Longrightarrow> reachable st'"

section \<open>Notions of the specification\<close>

text \<open>The window of an availability entry in minutes, and its two ends on the requested day.\<close>

definition minuteOfDay :: "int \<times> int \<Rightarrow> int" where
  "minuteOfDay hm = fst hm * 60 + snd hm"

definition windowMinutes :: "availabilitySlot \<Rightarrow> int" where
  "windowMinutes av = minuteOfDay (endTime av) - minuteOfDay (startTime av)"

definition windowStart :: "instant \<Rightarrow> availabilitySlot \<Rightarrow> instant" where
  "windowStart t av = setHours t (fst (startTime av)) (snd (startTime av)) 0 0"

definition windowEnd :: "instant \<Rightarrow> availabilitySlot \<Rightarrow> instant" where
  "windowEnd t av = setHours t (fst (endTime av)) (snd (endTime av)) 0 0"


text \<open>
  A window that lies on the day it is given for: it starts at 00:00 or later and ends at
  24:00 or earlier. Every window of wall-clock times "HH:MM" is of this kind.
\<close>

definition windowOnDay :: "availabilitySlot \<Rightarrow> bool" where
  "windowOnDay av = (0 \<le> minuteOfDay (startTime av) \<and> minuteOfDay (endTime av) \<le> 1440)"

text \<open>The doctor that the body of a booking request names, if there is one.\<close>

definition requestedDoctor :: "store \<Rightarrow> body \<Rightarrow> doctor_doc option" where
  "requestedDoctor st b =
     (case body_doctorId b of None \<Rightarrow> None | Some i \<Rightarrow> findById doctor_id (doctors st) i)"

text \<open>An appointment that holds its slot: its status is not cancelled.\<close>

definition activeAt :: "nat \<Rightarrow> instant \<Rightarrow> appointment_doc \<Rightarrow> bool" where
  "activeAt doctorId dt a = (doctor a = doctorId \<and> dateTime a = dt \<and> status a \<noteq> ''cancelled'')"

text \<open>
  The invariant of the appointments collection: the ids are pairwise different, and no
  (doctor, dateTime) pair has more than one appointment that is not cancelled.
\<close>

definition storeInvariant :: "appointment_doc list \<Rightarrow> bool" where
  "storeInvariant apps =
     (distinct (map appt_id apps) \<and> (\<forall>d t. length (filter (activeAt d t) apps) \<le> 1))"

section \<open>Example data\<close>

text \<open>Monday 5 January 1970, and a doctor who is open on Mondays from 09:00 to 10:00.\<close>

definition monday :: instant where
  "monday = 345600000"

definition tuesday :: instant where
  "tuesday = 432000000"

definition nineOClock :: instant where
  "nineOClock = 378000000"

definition mondayWindow :: availabilitySlot where
  "mondayWindow = \<lparr>dayOfWeek = 1, startTime = (9, 0), endTime = (10, 0), isAvailable = True\<rparr>"

definition doctorA :: doctor_doc where
  "doctorA = \<lparr>doctor_id = 7, user = 2, availability = [mondayWindow], slotDuration = 30,
              acceptingNewPatients = True, consultationFee = 50\<rparr>"

definition invertedDoctor :: doctor_doc where
  "invertedDoctor =
     doctorA\<lparr>availability := [mondayWindow\<lparr>startTime := (10, 0), endTime := (9, 0)\<rparr>]\<rparr>"

text \<open>A doctor whose Monday template runs from 23:00 to 25:00, in slots of one hour.\<close>

definition lateDoctor :: doctor_doc where
  "lateDoctor =
     doctorA\<lparr>availability := [mondayWindow\<lparr>startTime := (23, 0), endTime := (25, 0)\<rparr>],
             slotDuration := 60\<rparr>"

definition patientUser :: user_doc where
  "patientUser = \<lparr>user_id = 1, role = ''patient''\<rparr>"

definition doctorUser :: user_doc where
  "doctorUser = \<lparr>user_id = 2, role = ''doctor''\<rparr>"

definition adminUser :: user_doc where
  "adminUser = \<lparr>user_id = 3, role = ''admin''\<rparr>"

definition otherPatient :: user_doc where
  "otherPatient = \<lparr>user_id = 4, role = ''patient''\<rparr>"

text \<open>The request bodies.\<close>

definition emptyBody :: body where
  "emptyBody = \<lparr>body_doctorId = None, body_dateTime = InvalidDate, body_type = None,
                body_reason = None, body_symptoms = None, body_notes = None,
                body_status = None, body_prescription = None\<rparr>"

definition bookingBody :: body where
  "bookingBody = \<lparr>body_doctorId = Some 7, body_dateTime = Date nineOClock, body_type = None,
                  body_reason = Some ''Annual checkup'', body_symptoms = None, body_notes = None,
                  body_status = None, body_prescription = None\<rparr>"

definition adminBody :: body where
  "adminBody = emptyBody\<lparr>body_status := Some ''confirmed'', body_notes := Some ''Seen by the office'',
                         body_prescription := Some ''Ibuprofen''\<rparr>"

definition cancelBody :: body where
  "cancelBody = emptyBody\<lparr>body_status := Some ''cancelled'', body_reason := Some ''Clinic closed''\<rparr>"

definition reasonBody :: body where
  "reasonBody = emptyBody\<lparr>body_reason := Some ''Clinic closed''\<rparr>"

definition confirmBody :: body where
  "confirmBody = emptyBody\<lparr>body_status := Some ''confirmed''\<rparr>"

text \<open>
  The instants of four requests in a row on the Sunday before: a booking, its
  cancellation, a second booking of the same slot, and the doctor's confirmation of the
  first one.
\<close>

definition bookingTime :: instant where
  "bookingTime = 300000000"

definition cancelTime :: instant where
  "cancelTime = 310000000"

definition rebookTime :: instant where
  "rebookTime = 320000000"

definition confirmTime :: instant where
  "confirmTime = 330000000"

text \<open>The stores of the server as it runs: the flag is what the database makes of the declaration.\<close>

definition emptyStore :: store where
  "emptyStore = \<lparr>doctors = [doctorA], appointments = [],
                 uniqueIndexBuilt = indexBuilds doubleBookingIndex\<rparr>"

definition closedStore :: store where
  "closedStore = emptyStore\<lparr>doctors := [doctorA\<lparr>acceptingNewPatients := False\<rparr>]\<rparr>"

definition bookedAppointment :: appointment_doc where
  "bookedAppointment =
     \<lparr>appt_id = 1, patient = 1, doctor = 7, dateTime = nineOClock, appt_endTime = 379800000,
      status = ''pending'', type = ''in-person'', reason = ''Annual checkup'', symptoms = [],
      notes_patient = Some [], notes_doctor = None, prescription = None,
      fee_amount = Some 50, fee_paid = False, fee_paidAt = None,
      reminders_email = True, reminders_sms = False,
      cancelledBy = None, cancellationReason = None,
      createdAt = bookingTime, updatedAt = bookingTime\<rparr>"

definition bookedStore :: store where
  "bookedStore = emptyStore\<lparr>appointments := [bookedAppointment]\<rparr>"

definition cancelledAppointment :: appointment_doc where
  "cancelledAppointment =
     bookedAppointment\<lparr>status := ''cancelled'', cancelledBy := Some ''patient'',
                       cancellationReason := Some ''Cancelled by user'',
                       updatedAt := cancelTime\<rparr>"

definition cancelledStore :: store where
  "cancelledStore = emptyStore\<lparr>appointments := [cancelledAppointment]\<rparr>"

definition rebookedAppointment :: appointment_doc where
  "rebookedAppointment =
     bookedAppointment\<lparr>appt_id := 2, patient := 4, createdAt := rebookTime, updatedAt := rebookTime\<rparr>"

definition rebookedStore :: store where
  "rebookedStore = emptyStore\<lparr>appointments := [cancelledAppointment, rebookedAppointment]\<rparr>"

definition revivedAppointment :: appointment_doc where
  "revivedAppointment = cancelledAppointment\<lparr>status := ''confirmed'', updatedAt := confirmTime\<rparr>"

definition doubleBookedStore :: store where
  "doubleBookedStore = emptyStore\<lparr>appointments := [revivedAppointment, rebookedAppointment]\<rparr>"

text \<open>
  The late doctor with one appointment that is not cancelled, at 00:00 on Tuesday, which
  is the second slot of the Monday template.
\<close>

definition lateAppointment :: appointment_doc where
  "lateAppointment = bookedAppointment\<lparr>dateTime := tuesday, appt_endTime := tuesday + 3600000\<rparr>"

text \<open>A runtime that formats every slot as the empty string, and a clock that stands at the epoch.\<close>

definition plainFormat :: "instant \<Rightarrow> string" where
  "plainFormat t = []"

definition epochClock :: "nat \<Rightarrow> instant" where
  "epochClock k = 0"

definition lateStore :: store where
  "lateStore = emptyStore\<lparr>doctors := [lateDoctor], appointments := [lateAppointment]\<rparr>"

section \<open>Properties\<close>

subsection \<open>Lists\<close>

lemma find_None_conv: "(find P xs = None) = (\<forall>x \<in> set xs. \<not> P x)"
  by (induction xs) auto

subsection \<open>Date arithmetic and rounded-up division\<close>

lemma setMinutes_add: "setMinutes t (getMinutes t + n) = t + n * msPerMinute"
  by (simp add: setMinutes_def algebra_simps)

lemma setHours_minutes:
  "setHours t h m 0 0 = (t div msPerDay) * msPerDay + minuteOfDay (h, m) * msPerMinute"
  by (simp add: setHours_def minuteOfDay_def msPerHour_def msPerMinute_def)

lemma window_length: "windowEnd t av - windowStart t av = windowMinutes av * msPerMinute"
  by (simp add: windowEnd_def windowStart_def windowMinutes_def setHours_minutes minuteOfDay_def
      algebra_simps)







subsection \<open>The slot loop in closed form\<close>


lemma windowSlots_loop:
  "windowSlots doc t av = slotLoop (windowStart t av) (windowEnd t av) (slotDuration doc) []"
  by (cases "startTime av"; cases "endTime av")
     (simp add: windowSlots_def windowStart_def windowEnd_def)


lemma dayAvailability_doctorA:
  "dayAvailability doctorA (Date monday) = Some mondayWindow"
  by (simp add: dayAvailability_def doctorA_def monday_def mondayWindow_def getDay_def msPerDay_def)




subsection \<open>Days without slots\<close>

lemma slotLoop_empty: "\<not> c < e \<Longrightarrow> slotLoop c e d acc = Some acc"
  by (subst slotLoop.simps) simp

lemma dayAvailability_None:
  "(\<forall>a \<in> set (availability doc). dayOfWeek a = getDay t \<longrightarrow> \<not> isAvailable a) \<Longrightarrow>
   dayAvailability doc (Date t) = None"
  by (auto simp: dayAvailability_def find_None_conv)

text \<open>
  C7. generateSlots returns the empty sequence, and getSlots answers 200 with an empty
  list, when no entry of the doctor's availability is enabled for the weekday of the date,
  and when the enabled window of that weekday has its start at or after its end.
\<close>

theorem generateSlots_degenerate:
  assumes "(\<forall>a \<in> set (availability doc). dayOfWeek a = getDay t \<longrightarrow> \<not> isAvailable a) \<or>
           (\<exists>av. dayAvailability doc (Date t) = Some av \<and>
                 minuteOfDay (endTime av) \<le> minuteOfDay (startTime av))"
  shows "generateSlots doc (Date t) = Some [] \<and>
         (findById doctor_id (doctors st) i = Some doc \<longrightarrow>
            getSlots toLocaleTimeString clock st i (Some (Date t)) = Some (Success 200 []))"
  using assms
proof
  assume "\<forall>a \<in> set (availability doc). dayOfWeek a = getDay t \<longrightarrow> \<not> isAvailable a"
  then have "dayAvailability doc (Date t) = None" by (rule dayAvailability_None)
  then show ?thesis by (simp add: generateSlots_def getSlots_def)
next
  assume "\<exists>av. dayAvailability doc (Date t) = Some av \<and>
                minuteOfDay (endTime av) \<le> minuteOfDay (startTime av)"
  then obtain av where av: "dayAvailability doc (Date t) = Some av"
    and inv: "minuteOfDay (endTime av) \<le> minuteOfDay (startTime av)" by blast
  have "windowEnd t av - windowStart t av \<le> 0"
    using inv by (simp add: window_length windowMinutes_def msPerMinute_def)
  then have "windowSlots doc t av = Some []"
    by (simp add: windowSlots_loop slotLoop_empty)
  then show ?thesis using av
    by (simp add: generateSlots_def getSlots_def filterAvailable_def)
qed

theorem generateSlots_degenerate_witness:
  "generateSlots doctorA (Date tuesday) = Some [] \<and>
   getSlots (\<lambda>t. []) (\<lambda>k. 0) emptyStore 7 (Some (Date tuesday)) = Some (Success 200 []) \<and>
   generateSlots invertedDoctor (Date monday) = Some []"
proof -
  have a: "\<forall>a \<in> set (availability doctorA). dayOfWeek a = getDay tuesday \<longrightarrow> \<not> isAvailable a"
    by (simp add: doctorA_def mondayWindow_def getDay_def tuesday_def msPerDay_def)
  have f: "findById doctor_id (doctors emptyStore) 7 = Some doctorA"
    by (simp add: findById_def emptyStore_def doctorA_def)
  have b: "\<exists>av. dayAvailability invertedDoctor (Date monday) = Some av \<and>
                minuteOfDay (endTime av) \<le> minuteOfDay (startTime av)"
    by (simp add: dayAvailability_def invertedDoctor_def doctorA_def mondayWindow_def getDay_def
        monday_def msPerDay_def minuteOfDay_def)
  show ?thesis
    using generateSlots_degenerate[of doctorA tuesday emptyStore 7 "\<lambda>t. []" "\<lambda>k. 0"] a f
          generateSlots_degenerate[of invertedDoctor monday emptyStore 7 "\<lambda>t. []" "\<lambda>k. 0"] b
    by simp
qed

subsection \<open>The slots that getSlots returns\<close>

lemma filterSlots_sound:
  "s \<in> set (filterSlots clock k booked slots) \<Longrightarrow>
   s \<in> set slots \<and> s \<notin> set booked \<and> (\<exists>j. clock j < s)"
  by (induction slots arbitrary: k) (auto split: if_splits)

lemma slotLoop_bounds_aux:
  assumes "slotLoop c e d acc = Some r"
  shows "(c < e \<longrightarrow> 0 < d) \<and> (\<forall>s \<in> set r. s \<in> set acc \<or> (c \<le> s \<and> s < e))"
proof (rule slotLoop.raw_induct[where P = "\<lambda>c e d acc r.
         (c < e \<longrightarrow> 0 < d) \<and> (\<forall>s \<in> set r. s \<in> set acc \<or> (c \<le> s \<and> s < e))", OF _ assms],
       goal_cases)
  case (1 loop c e d acc r)
  show ?case
  proof (cases "c < e")
    case False
    with 1(2) show ?thesis by simp
  next
    case True
    let ?c' = "setMinutes c (getMinutes c + d)"
    from True 1(2) have rec: "loop ?c' e d (acc @ [c]) = Some r" by simp
    from 1(1)[OF rec] have ih1: "?c' < e \<longrightarrow> 0 < d"
      and ih2: "\<forall>s \<in> set r. s \<in> set (acc @ [c]) \<or> (?c' \<le> s \<and> s < e)" by blast+
    have c': "?c' = c + d * msPerMinute" by (rule setMinutes_add)
    have d: "0 < d"
    proof (rule ccontr)
      assume "\<not> 0 < d"
      then have "d * msPerMinute \<le> 0" by (simp add: msPerMinute_def mult_le_0_iff)
      then have "?c' < e" using True c' by linarith
      with ih1 \<open>\<not> 0 < d\<close> show False by blast
    qed
    then have "c \<le> ?c'" using c' by (simp add: msPerMinute_def)
    then show ?thesis using ih2 d True by fastforce
  qed
qed

lemma windowSlots_bounds:
  assumes "windowSlots doc t av = Some slots" "s \<in> set slots"
  shows "windowStart t av \<le> s \<and> s < windowEnd t av"
  using slotLoop_bounds_aux[of "windowStart t av" "windowEnd t av" "slotDuration doc" "[]" slots] assms
  by (simp add: windowSlots_loop)

lemma day_bounds:
  assumes "windowOnDay av"
  shows "setHours t 0 0 0 0 \<le> windowStart t av"
    and "windowEnd t av \<le> setHours (setHours t 0 0 0 0) 23 59 59 999 + 1"
proof -
  have sod: "setHours t 0 0 0 0 = (t div msPerDay) * msPerDay"
    by (simp add: setHours_def)
  have eod: "setHours (setHours t 0 0 0 0) 23 59 59 999 + 1 =
             (t div msPerDay) * msPerDay + 1440 * msPerMinute"
    by (simp add: setHours_def msPerDay_def msPerHour_def msPerMinute_def)
  have ws: "windowStart t av = (t div msPerDay) * msPerDay + minuteOfDay (startTime av) * msPerMinute"
    by (simp add: windowStart_def setHours_minutes)
  have we: "windowEnd t av = (t div msPerDay) * msPerDay + minuteOfDay (endTime av) * msPerMinute"
    by (simp add: windowEnd_def setHours_minutes)
  have "0 \<le> minuteOfDay (startTime av) * msPerMinute"
    using assms by (simp add: windowOnDay_def msPerMinute_def)
  then show "setHours t 0 0 0 0 \<le> windowStart t av"
    unfolding sod ws by linarith
  have "minuteOfDay (endTime av) * msPerMinute \<le> 1440 * msPerMinute"
    using assms by (simp add: windowOnDay_def msPerMinute_def)
  then show "windowEnd t av \<le> setHours (setHours t 0 0 0 0) 23 59 59 999 + 1"
    unfolding eod we by linarith
qed

lemma find_Some_holds: "find P xs = Some x \<Longrightarrow> P x \<and> x \<in> set xs"
  by (induction xs) (auto split: if_splits)

lemma bookedTimes_mem:
  assumes "a \<in> set apps" "activeAt i s a"
    and "setHours t 0 0 0 0 \<le> s" "s \<le> setHours (setHours t 0 0 0 0) 23 59 59 999"
  shows "s \<in> set (bookedTimes apps i t)"
  using assms by (force simp: bookedTimes_def activeAt_def Let_def)

text \<open>
  C5, as the code has it. The booked appointments are looked up for the requested day
  only. When the window of the template that getSlots uses lies on that day, every slot
  that getSlots returns starts strictly after the instant of the call, and no appointment
  of that doctor with a status other than cancelled has that start as its dateTime. The
  clock readings taken during the call are not before the instant of the call.
\<close>

theorem getSlots_available:
  assumes res: "getSlots toLocaleTimeString clock st i (Some date) = Some (Success 200 views)"
      and clk: "\<forall>k. now \<le> clock k"
      and wf: "\<forall>doc av. findById doctor_id (doctors st) i = Some doc \<and>
                 dayAvailability doc date = Some av \<longrightarrow> windowOnDay av"
      and v: "v \<in> set views"
  shows "now < slot_dateTime v \<and>
         \<not> (\<exists>a \<in> set (appointments st). activeAt i (slot_dateTime v) a)"
proof -
  from res v obtain doc where doc: "findById doctor_id (doctors st) i = Some doc"
    by (auto simp: getSlots_def split: option.splits)
  then have docId: "doctor_id doc = i"
    using find_Some_holds[of "\<lambda>d. doctor_id d = i" "doctors st" doc] by (simp add: findById_def)
  from res v doc obtain av t slots where av: "dayAvailability doc date = Some av"
    and t: "date = Date t"
    and slots: "windowSlots doc t av = Some slots"
    and views: "views = filterAvailable toLocaleTimeString clock (appointments st) i t slots"
    using docId by (auto simp: getSlots_def split: option.splits js_date.splits)
  from wf doc av have wc: "windowOnDay av" by blast
  let ?s = "slot_dateTime v"
  from v views have mem: "?s \<in> set (filterSlots clock 0 (bookedTimes (appointments st) i t) slots)"
    by (auto simp: filterAvailable_def)
  from filterSlots_sound[OF mem] obtain j where
    inSlots: "?s \<in> set slots" and free: "?s \<notin> set (bookedTimes (appointments st) i t)"
    and late: "clock j < ?s" by blast
  have "now < ?s" using clk late by (meson le_less_trans)
  moreover have "\<not> (\<exists>a \<in> set (appointments st). activeAt i ?s a)"
  proof
    assume "\<exists>a \<in> set (appointments st). activeAt i ?s a"
    then obtain a where a: "a \<in> set (appointments st)" "activeAt i ?s a" by blast
    from windowSlots_bounds[OF slots inSlots] day_bounds[OF wc, of t]
    have "setHours t 0 0 0 0 \<le> ?s" "?s \<le> setHours (setHours t 0 0 0 0) 23 59 59 999"
      by linarith+
    from bookedTimes_mem[OF a this] free show False by blast
  qed
  ultimately show ?thesis by blast
qed

theorem getSlots_available_witness:
  "getSlots (\<lambda>t. ''09:30 AM'') (\<lambda>k. monday) bookedStore 7 (Some (Date monday)) =
     Some (Success 200 [\<lparr>slot_dateTime = nineOClock + 30 * msPerMinute, formatted = ''09:30 AM''\<rparr>]) \<and>
   (\<forall>k. monday \<le> (\<lambda>k. monday) k) \<and> windowOnDay mondayWindow \<and>
   monday < nineOClock + 30 * msPerMinute \<and>
   \<not> (\<exists>a \<in> set (appointments bookedStore). activeAt 7 (nineOClock + 30 * msPerMinute) a)"
proof -
  let ?v = "\<lparr>slot_dateTime = nineOClock + 30 * msPerMinute, formatted = ''09:30 AM''\<rparr>"
  have res: "getSlots (\<lambda>t. ''09:30 AM'') (\<lambda>k. monday) bookedStore 7 (Some (Date monday)) =
               Some (Success 200 [?v])"
    by code_simp
  have clk: "\<forall>k. monday \<le> (\<lambda>k. monday) k" by simp
  have day: "windowOnDay mondayWindow"
    by (simp add: windowOnDay_def mondayWindow_def minuteOfDay_def)
  have "findById doctor_id (doctors bookedStore) 7 = Some doctorA"
    by (simp add: findById_def bookedStore_def emptyStore_def doctorA_def)
  with dayAvailability_doctorA day
  have wf: "\<forall>doc av. findById doctor_id (doctors bookedStore) 7 = Some doc \<and>
              dayAvailability doc (Date monday) = Some av \<longrightarrow> windowOnDay av"
    by simp
  have v: "?v \<in> set [?v]" by simp
  from getSlots_available[OF res clk wf v] res clk day show ?thesis by simp
qed

text \<open>
  The claim C5 as written fails for a template that runs past midnight. With the Monday
  window from 23:00 to 25:00 getSlots returns the slot at 00:00 on Tuesday, although an
  appointment that is not cancelled holds it: the booked times are those of Monday.
\<close>

theorem getSlots_booked_counterexample:
  "getSlots plainFormat epochClock lateStore 7 (Some (Date monday)) =
     Some (Success 200 [\<lparr>slot_dateTime = tuesday - 3600000, formatted = []\<rparr>,
                        \<lparr>slot_dateTime = tuesday, formatted = []\<rparr>]) \<and>
   appointments lateStore = [lateAppointment] \<and>
   activeAt 7 tuesday lateAppointment"
proof -
  have "getSlots plainFormat epochClock lateStore 7 (Some (Date monday)) =
     Some (Success 200 [\<lparr>slot_dateTime = tuesday - 3600000, formatted = []\<rparr>,
                        \<lparr>slot_dateTime = tuesday, formatted = []\<rparr>])"
    by code_simp
  moreover have "appointments lateStore = [lateAppointment]"
    by (simp add: lateStore_def emptyStore_def)
  moreover have "activeAt 7 tuesday lateAppointment"
    by (simp add: activeAt_def lateAppointment_def bookedAppointment_def)
  ultimately show ?thesis by simp
qed

subsection \<open>The conflict check\<close>

lemma isSlotAvailable_find:
  "isSlotAvailable apps doctorId dt excludeId = (find (slotQuery doctorId dt excludeId) apps = None)"
  by (simp add: isSlotAvailable_def split: option.splits)

text \<open>
  C6. isSlotAvailable is true exactly when the collection holds no appointment of that
  doctor at exactly that instant whose status is not cancelled and whose id differs from
  excludeId when one is given. It is a function of the collection alone and always
  returns a boolean.
\<close>

theorem isSlotAvailable_iff:
  "isSlotAvailable apps doctorId dt excludeId =
     (\<not> (\<exists>a \<in> set apps. doctor a = doctorId \<and> dateTime a = dt \<and> status a \<noteq> ''cancelled'' \<and>
            (\<forall>e. excludeId = Some e \<longrightarrow> appt_id a \<noteq> e)))"
  by (auto simp: isSlotAvailable_find slotQuery_def find_None_conv split: option.splits)

theorem isSlotAvailable_iff_witness:
  "\<not> isSlotAvailable [bookedAppointment] 7 nineOClock None \<and>
   isSlotAvailable [bookedAppointment] 7 nineOClock (Some 1) \<and>
   isSlotAvailable [bookedAppointment\<lparr>status := ''cancelled''\<rparr>] 7 nineOClock None \<and>
   isSlotAvailable [bookedAppointment] 7 (nineOClock + 1) None"
  using isSlotAvailable_iff[of "[bookedAppointment]" 7 nineOClock None]
        isSlotAvailable_iff[of "[bookedAppointment]" 7 nineOClock "Some 1"]
        isSlotAvailable_iff[of "[bookedAppointment\<lparr>status := ''cancelled''\<rparr>]" 7 nineOClock None]
        isSlotAvailable_iff[of "[bookedAppointment]" 7 "nineOClock + 1" None]
  by (simp add: bookedAppointment_def)

subsection \<open>Booking\<close>

lemma create_unfold:
  "create now st u b =
     (case requestedDoctor st b of
        None \<Rightarrow> (Failure 404 ''Doctor not found'', st)
      | Some doc \<Rightarrow>
          if \<not> acceptingNewPatients doc
          then (Failure 400 ''Doctor not accepting new patients'', st)
          else
            (case body_dateTime b of
               InvalidDate \<Rightarrow> (Next CastError, st)
             | Date dt \<Rightarrow>
                 if \<not> isSlotAvailable (appointments st) (doctor_id doc) dt None
                 then (Failure 400 ''Time slot is not available'', st)
                 else
                   (let a = newAppointment now (appointments st) u (doctor_id doc) doc dt
                              (dt + slotDuration doc * msPerMinute) b
                    in case appointmentCreate (uniqueIndexBuilt st) (appointments st) b
                              (timeClip (dt + slotDuration doc * msPerMinute)) a of
                         Inl err \<Rightarrow> (Next err, st)
                       | Inr apps' \<Rightarrow>
                           (Success 201 (map_option defaultSelect (findById appt_id apps' (appt_id a))),
                            st\<lparr>appointments := apps'\<rparr>))))"
  by (auto simp: create_def requestedDoctor_def findById_def setMinutes_add Let_def
      dest!: find_Some_holds split: option.splits js_date.splits sum.splits)

text \<open>
  C3. create answers 404 and leaves the store as it is when the doctor does not exist; 400
  and the store as it is when the doctor does not accept new patients; 400 and the store
  as it is when the doctor accepts patients and isSlotAvailable is false for the requested
  instant. Whenever create changes the store or answers with success, the doctor exists,
  accepts new patients and the slot is available.
\<close>

theorem create_preconditions:
  "(requestedDoctor st b = None \<longrightarrow>
      create now st u b = (Failure 404 ''Doctor not found'', st)) \<and>
   (\<forall>doc. requestedDoctor st b = Some doc \<and> \<not> acceptingNewPatients doc \<longrightarrow>
      create now st u b = (Failure 400 ''Doctor not accepting new patients'', st)) \<and>
   (\<forall>doc dt. requestedDoctor st b = Some doc \<and> acceptingNewPatients doc \<and>
      body_dateTime b = Date dt \<and> \<not> isSlotAvailable (appointments st) (doctor_id doc) dt None \<longrightarrow>
      create now st u b = (Failure 400 ''Time slot is not available'', st)) \<and>
   (\<forall>r st'. create now st u b = (r, st') \<and> (st' \<noteq> st \<or> (\<exists>c x. r = Success c x)) \<longrightarrow>
      (\<exists>doc dt. requestedDoctor st b = Some doc \<and> acceptingNewPatients doc \<and>
         body_dateTime b = Date dt \<and> isSlotAvailable (appointments st) (doctor_id doc) dt None))"
  by (auto simp: create_unfold Let_def split: option.splits js_date.splits sum.splits if_splits)

lemma create_booking:
  "create bookingTime emptyStore patientUser bookingBody =
     (Success 201 (Some bookedAppointment), bookedStore)"
  by code_simp

theorem create_preconditions_witness:
  "create bookingTime emptyStore patientUser (bookingBody\<lparr>body_doctorId := Some 8\<rparr>) =
     (Failure 404 ''Doctor not found'', emptyStore) \<and>
   create bookingTime closedStore patientUser bookingBody =
     (Failure 400 ''Doctor not accepting new patients'', closedStore) \<and>
   create bookingTime bookedStore patientUser bookingBody =
     (Failure 400 ''Time slot is not available'', bookedStore) \<and>
   (\<exists>doc dt. requestedDoctor emptyStore bookingBody = Some doc \<and> acceptingNewPatients doc \<and>
      body_dateTime bookingBody = Date dt \<and>
      isSlotAvailable (appointments emptyStore) (doctor_id doc) dt None)"
proof -
  have h1: "requestedDoctor emptyStore (bookingBody\<lparr>body_doctorId := Some 8\<rparr>) = None"
    by (simp add: requestedDoctor_def bookingBody_def findById_def emptyStore_def doctorA_def)
  have h2: "requestedDoctor closedStore bookingBody = Some (doctorA\<lparr>acceptingNewPatients := False\<rparr>) \<and>
            \<not> acceptingNewPatients (doctorA\<lparr>acceptingNewPatients := False\<rparr>)"
    by (simp add: requestedDoctor_def bookingBody_def findById_def closedStore_def emptyStore_def
        doctorA_def)
  have h3: "requestedDoctor bookedStore bookingBody = Some doctorA \<and> acceptingNewPatients doctorA \<and>
            body_dateTime bookingBody = Date nineOClock \<and>
            \<not> isSlotAvailable (appointments bookedStore) (doctor_id doctorA) nineOClock None"
    by (simp add: requestedDoctor_def bookingBody_def findById_def bookedStore_def emptyStore_def
        doctorA_def isSlotAvailable_def slotQuery_def bookedAppointment_def)
  have h4: "create bookingTime emptyStore patientUser bookingBody =
              (Success 201 (Some bookedAppointment), bookedStore) \<and>
            (bookedStore \<noteq> emptyStore \<or> (\<exists>c x. Success 201 (Some bookedAppointment) = Success c x))"
    using create_booking by simp
  from create_preconditions[of emptyStore "bookingBody\<lparr>body_doctorId := Some 8\<rparr>" bookingTime patientUser] h1
  have c1: "create bookingTime emptyStore patientUser (bookingBody\<lparr>body_doctorId := Some 8\<rparr>) =
              (Failure 404 ''Doctor not found'', emptyStore)" by blast
  from create_preconditions[of closedStore bookingBody bookingTime patientUser] h2
  have c2: "create bookingTime closedStore patientUser bookingBody =
              (Failure 400 ''Doctor not accepting new patients'', closedStore)" by blast
  from create_preconditions[of bookedStore bookingBody bookingTime patientUser] h3
  have c3: "create bookingTime bookedStore patientUser bookingBody =
              (Failure 400 ''Time slot is not available'', bookedStore)" by blast
  from create_preconditions[of emptyStore bookingBody bookingTime patientUser] h4
  have c4: "\<exists>doc dt. requestedDoctor emptyStore bookingBody = Some doc \<and> acceptingNewPatients doc \<and>
      body_dateTime bookingBody = Date dt \<and>
      isSlotAvailable (appointments emptyStore) (doctor_id doc) dt None" by blast
  from c1 c2 c3 c4 show ?thesis by blast
qed

lemma foldr_max_ge: "x \<in> set xs \<Longrightarrow> x \<le> foldr max xs (0::nat)"
  by (induction xs) (auto simp: max_def)

lemma newId_fresh: "a \<in> set apps \<Longrightarrow> appt_id a < newId apps"
  using foldr_max_ge[of "appt_id a" "map appt_id apps"] by (simp add: newId_def less_Suc_eq_le)

lemma findById_append_new:
  "\<forall>b \<in> set apps. appt_id b \<noteq> appt_id a \<Longrightarrow> findById appt_id (apps @ [a]) (appt_id a) = Some a"
  by (induction apps) (auto simp: findById_def)

lemma findById_new:
  "findById appt_id (apps @ [newAppointment now apps u i doc dt e b])
     (appt_id (newAppointment now apps u i doc dt e b)) = Some (newAppointment now apps u i doc dt e b)"
proof (rule findById_append_new)
  show "\<forall>x \<in> set apps. appt_id x \<noteq> appt_id (newAppointment now apps u i doc dt e b)"
    using newId_fresh by (fastforce simp: newAppointment_def)
qed

text \<open>
  C4. The appointment that a successful create returns is the one it has stored; its end
  time is its start plus the doctor's slot duration in minutes, its fee amount is the
  doctor's consultation fee as read during the call, and its status is pending.
\<close>

theorem create_result:
  assumes "create now st u b = (Success c res, st')"
  shows "\<exists>a doc dt. res = Some a \<and> c = 201 \<and>
           requestedDoctor st b = Some doc \<and> body_dateTime b = Date dt \<and>
           st' = st\<lparr>appointments := appointments st @ [a]\<rparr> \<and>
           dateTime a = dt \<and>
           appt_endTime a - dateTime a = slotDuration doc * msPerMinute \<and>
           fee_amount a = Some (consultationFee doc) \<and>
           status a = ''pending''"
proof -
  from assms obtain doc dt apps' where doc: "requestedDoctor st b = Some doc"
    and dt: "body_dateTime b = Date dt"
    and ins: "appointmentCreate (uniqueIndexBuilt st) (appointments st) b
                (timeClip (dt + slotDuration doc * msPerMinute))
                (newAppointment now (appointments st) u (doctor_id doc) doc dt
                   (dt + slotDuration doc * msPerMinute) b) = Inr apps'"
    and res: "res = map_option defaultSelect (findById appt_id apps'
                (appt_id (newAppointment now (appointments st) u (doctor_id doc) doc dt
                   (dt + slotDuration doc * msPerMinute) b)))"
    and c: "c = 201" and st': "st' = st\<lparr>appointments := apps'\<rparr>"
    by (auto simp: create_unfold Let_def split: option.splits js_date.splits sum.splits if_splits)
  let ?a = "newAppointment now (appointments st) u (doctor_id doc) doc dt
              (dt + slotDuration doc * msPerMinute) b"
  from ins have apps': "apps' = appointments st @ [?a]"
    by (auto simp: appointmentCreate_def insertOne_def split: if_splits)
  have sel: "defaultSelect ?a = ?a" by (simp add: defaultSelect_def newAppointment_def)
  have "res = Some ?a" using res apps' findById_new sel by simp
  then show ?thesis using doc dt c st' apps'
    by (simp add: newAppointment_def)
qed

theorem create_result_witness:
  "create bookingTime emptyStore patientUser bookingBody =
     (Success 201 (Some bookedAppointment), bookedStore) \<and>
   appt_endTime bookedAppointment - dateTime bookedAppointment = slotDuration doctorA * msPerMinute \<and>
   fee_amount bookedAppointment = Some (consultationFee doctorA) \<and>
   status bookedAppointment = ''pending''"
proof -
  have d: "requestedDoctor emptyStore bookingBody = Some doctorA"
    by (simp add: requestedDoctor_def bookingBody_def findById_def emptyStore_def doctorA_def)
  from create_result[OF create_booking] d show ?thesis
    using create_booking by auto
qed

subsection \<open>Updating\<close>

lemma replaceFirst_same: "findById appt_id apps i = Some a \<Longrightarrow> replaceFirst i a apps = apps"
  by (induction apps) (auto simp: findById_def split: if_splits)

lemma length_replaceFirst: "length (replaceFirst i a apps) = length apps"
  by (induction apps) auto

lemma replaceFirst_mem: "x \<in> set (replaceFirst i a' apps) \<Longrightarrow> x = a' \<or> x \<in> set apps"
  by (induction apps) (auto split: if_splits)

lemma applyUpdates_none: "applyUpdates noUpdates a = a"
  by (simp add: applyUpdates_def noUpdates_def setPath_def)

lemma applyUpdates_frame:
  "appt_id (applyUpdates u a) = appt_id a" "doctor (applyUpdates u a) = doctor a"
  "dateTime (applyUpdates u a) = dateTime a" "patient (applyUpdates u a) = patient a"
  "appt_endTime (applyUpdates u a) = appt_endTime a" "fee_amount (applyUpdates u a) = fee_amount a"
  by (simp_all add: applyUpdates_def)

lemma findById_id: "findById appt_id apps i = Some a \<Longrightarrow> appt_id a = i"
  using find_Some_holds[of "\<lambda>d. appt_id d = i" apps a] by (simp add: findById_def)

text \<open>
  An update whose validators pass and whose result has the index entry of the stored
  document is written, with the stamp.
\<close>

lemma findByIdAndUpdate_same_entry:
  assumes found: "findById appt_id apps i = Some a"
      and valid: "case upd_status u of None \<Rightarrow> True | Some v \<Rightarrow> v \<in> set statusEnum"
                 "validCancelledBy (upd_cancelledBy u)"
      and entry: "indexEntry (applyUpdates u a) = indexEntry a"
  shows "findByIdAndUpdate now built apps i u =
           Inr (replaceFirst i ((applyUpdates u a)\<lparr>updatedAt := now\<rparr>) apps,
                Some (defaultSelect ((applyUpdates u a)\<lparr>updatedAt := now\<rparr>)))"
proof -
  have "indexEntry ((applyUpdates u a)\<lparr>updatedAt := now\<rparr>) = indexEntry (applyUpdates u a)"
    by (simp add: indexEntry_def)
  with entry have "indexEntry ((applyUpdates u a)\<lparr>updatedAt := now\<rparr>) = indexEntry a"
    by simp
  then show ?thesis
    using found valid findById_id[OF found]
    by (simp add: findByIdAndUpdate_def replaceOne_def Let_def)
qed

lemma update_by_patient:
  assumes "findById appt_id (appointments st) i = Some a"
      and "isPatientOf u a" and "\<not> isDoctorOf st u a"
      and "body_status b \<noteq> Some ''cancelled''"
  shows "update now st u i b =
           (let a' = a\<lparr>notes_patient := (if truthy (body_notes b) then body_notes b else notes_patient a),
                       updatedAt := now\<rparr>
            in (Success 200 (Some (defaultSelect a')),
                st\<lparr>appointments := replaceFirst i a' (appointments st)\<rparr>))"
proof -
  let ?u = "buildUpdates True False u b"
  let ?a' = "a\<lparr>notes_patient := (if truthy (body_notes b) then body_notes b else notes_patient a)\<rparr>"
  have sel: "upd_status ?u = None" "upd_cancelledBy ?u = None"
    using assms(4) by (simp_all add: buildUpdates_def noUpdates_def)
  have ap: "applyUpdates ?u a = ?a'"
    using assms(4)
    by (simp add: buildUpdates_def noUpdates_def applyUpdates_def setPath_def truthy_def
        split: option.splits)
  have idx: "indexEntry (applyUpdates ?u a) = indexEntry a" by (simp add: ap indexEntry_def)
  have "findByIdAndUpdate now (uniqueIndexBuilt st) (appointments st) i ?u =
          Inr (replaceFirst i (?a'\<lparr>updatedAt := now\<rparr>) (appointments st),
               Some (defaultSelect (?a'\<lparr>updatedAt := now\<rparr>)))"
    using findByIdAndUpdate_same_entry[OF assms(1) _ _ idx, of now "uniqueIndexBuilt st"] sel
    by (simp add: validCancelledBy_def ap)
  then show ?thesis using assms by (simp add: update_def Let_def)
qed

lemma update_by_doctor:
  assumes found: "findById appt_id (appointments st) i = Some a"
      and rel: "\<not> isPatientOf u a" "isDoctorOf st u a"
      and nc: "body_status b \<noteq> Some ''cancelled''"
      and ok: "update now st u i b = (Success c r, st')"
  shows "\<exists>a'. a' = a\<lparr>status := (if truthy (body_status b) then the (body_status b) else status a),
                       notes_doctor := (if truthy (body_notes b) then body_notes b else notes_doctor a),
                       prescription := (if truthy (body_prescription b) then body_prescription b
                                        else prescription a),
                       updatedAt := now\<rparr> \<and>
              r = Some (defaultSelect a') \<and>
              st' = st\<lparr>appointments := replaceFirst i a' (appointments st)\<rparr>"
proof -
  let ?u = "buildUpdates False True u b"
  let ?a' = "a\<lparr>status := (if truthy (body_status b) then the (body_status b) else status a),
                notes_doctor := (if truthy (body_notes b) then body_notes b else notes_doctor a),
                prescription := (if truthy (body_prescription b) then body_prescription b
                                 else prescription a)\<rparr>"
  have ap: "applyUpdates ?u a = ?a'"
    using nc
    by (simp add: buildUpdates_def noUpdates_def applyUpdates_def setPath_def truthy_def Let_def
        split: option.splits)
  from ok found rel have "\<exists>apps'. findByIdAndUpdate now (uniqueIndexBuilt st) (appointments st) i ?u =
       Inr (apps', r) \<and> st' = st\<lparr>appointments := apps'\<rparr>"
    by (auto simp: update_def Let_def split: sum.splits if_splits)
  then obtain apps' where
    f: "findByIdAndUpdate now (uniqueIndexBuilt st) (appointments st) i ?u = Inr (apps', r)"
    and st': "st' = st\<lparr>appointments := apps'\<rparr>" by blast
  from f found findById_id[OF found]
  have "r = Some (defaultSelect ((applyUpdates ?u a)\<lparr>updatedAt := now\<rparr>)) \<and>
        apps' = replaceFirst i ((applyUpdates ?u a)\<lparr>updatedAt := now\<rparr>) (appointments st)"
    by (auto simp: findByIdAndUpdate_def replaceOne_def Let_def split: if_splits sum.splits)
  then have "r = Some (defaultSelect (?a'\<lparr>updatedAt := now\<rparr>)) \<and>
             apps' = replaceFirst i (?a'\<lparr>updatedAt := now\<rparr>) (appointments st)"
    by (simp only: ap)
  with st' show ?thesis by simp
qed

lemma update_cancel:
  assumes found: "findById appt_id (appointments st) i = Some a"
      and rel: "isPatientOf u a \<or> isDoctorOf st u a"
      and rl: "role u = ''patient'' \<or> role u = ''doctor''"
      and canc: "body_status b = Some ''cancelled''"
  shows "\<exists>a'. update now st u i b =
                (Success 200 (Some (defaultSelect a')),
                 st\<lparr>appointments := replaceFirst i a' (appointments st)\<rparr>) \<and>
              status a' = ''cancelled'' \<and> cancelledBy a' = Some (role u) \<and>
              cancellationReason a' = Some (orElse (body_reason b) [])"
proof -
  let ?u = "buildUpdates (isPatientOf u a) (isDoctorOf st u a) u b"
  let ?a' = "(applyUpdates ?u a)\<lparr>updatedAt := now\<rparr>"
  have sel: "upd_status ?u = Some ''cancelled''" "upd_cancelledBy ?u = Some (role u)"
    "upd_cancellationReason ?u = Some (orElse (body_reason b) [])"
    using canc by (simp_all add: buildUpdates_def Let_def)
  have st: "status ?a' = ''cancelled''" "cancelledBy ?a' = Some (role u)"
    "cancellationReason ?a' = Some (orElse (body_reason b) [])"
    using sel by (simp_all add: applyUpdates_def setPath_def)
  have valid: "validCancelledBy (upd_cancelledBy ?u)"
    using rl sel by (auto simp: validCancelledBy_def cancelledByEnum_def)
  have "indexEntry ?a' = None" using st(1) by (simp add: indexEntry_def)
  then have rep: "replaceOne (uniqueIndexBuilt st) (appointments st) a ?a' =
                    Inr (replaceFirst (appt_id a) ?a' (appointments st))"
    by (simp add: replaceOne_def duplicateKey_def)
  have "findByIdAndUpdate now (uniqueIndexBuilt st) (appointments st) i ?u =
          Inr (replaceFirst i ?a' (appointments st), Some (defaultSelect ?a'))"
    using found findById_id[OF found] sel(1) valid rep
    by (simp add: findByIdAndUpdate_def Let_def statusEnum_def)
  then have "update now st u i b =
               (Success 200 (Some (defaultSelect ?a')),
                st\<lparr>appointments := replaceFirst i ?a' (appointments st)\<rparr>)"
    using found rel by (auto simp: update_def Let_def)
  with st show ?thesis by blast
qed

text \<open>
  C8. The claim fails for an administrator who sets the status to cancelled: the handler
  admits the administrator, puts the role admin into cancelledBy, and the schema's enum
  for cancelledBy (patient, doctor, system, null) refuses it. Nothing is recorded. For a
  patient and for a doctor the gating is as claimed: lemmas update_by_patient,
  update_by_doctor and update_cancel.
\<close>

theorem update_admin_cancel_rejected:
  "update confirmTime bookedStore adminUser 1 cancelBody = (Next ValidationError, bookedStore)"
  by code_simp

text \<open>
  C10, as the code has it. An administrator who is neither the patient nor the doctor of
  the appointment and does not ask for the status cancelled passes the authorization, and
  the update that is sent is empty but for the stamp: the appointment is stored and
  returned with updatedAt set to the time of the call and every other field as it was,
  and the other appointments stay as they were.
\<close>

theorem update_admin_only_stamp:
  assumes "findById appt_id (appointments st) i = Some a"
      and "role u = ''admin''" and "\<not> isPatientOf u a" and "\<not> isDoctorOf st u a"
      and "body_status b \<noteq> Some ''cancelled''"
  shows "update now st u i b =
           (Success 200 (Some (defaultSelect (a\<lparr>updatedAt := now\<rparr>))),
            st\<lparr>appointments := replaceFirst i (a\<lparr>updatedAt := now\<rparr>) (appointments st)\<rparr>)"
proof -
  have none: "buildUpdates False False u b = noUpdates"
    using assms(5) by (simp add: buildUpdates_def)
  have sel: "upd_status noUpdates = None" "upd_cancelledBy noUpdates = None"
    by (simp_all add: noUpdates_def)
  have "findByIdAndUpdate now (uniqueIndexBuilt st) (appointments st) i noUpdates =
          Inr (replaceFirst i (a\<lparr>updatedAt := now\<rparr>) (appointments st),
               Some (defaultSelect (a\<lparr>updatedAt := now\<rparr>)))"
    using findByIdAndUpdate_same_entry[OF assms(1), of noUpdates now "uniqueIndexBuilt st"] sel
    by (simp add: applyUpdates_none validCancelledBy_def)
  then show ?thesis
    using assms none by (simp add: update_def)
qed

theorem update_admin_only_stamp_witness:
  "findById appt_id (appointments bookedStore) 1 = Some bookedAppointment \<and>
   role adminUser = ''admin'' \<and> \<not> isPatientOf adminUser bookedAppointment \<and>
   \<not> isDoctorOf bookedStore adminUser bookedAppointment \<and>
   body_status adminBody \<noteq> Some ''cancelled'' \<and>
   update confirmTime bookedStore adminUser 1 adminBody =
     (Success 200 (Some (bookedAppointment\<lparr>updatedAt := confirmTime\<rparr>)),
      bookedStore\<lparr>appointments := [bookedAppointment\<lparr>updatedAt := confirmTime\<rparr>]\<rparr>)"
proof -
  have h1: "findById appt_id (appointments bookedStore) 1 = Some bookedAppointment"
    by (simp add: findById_def bookedStore_def bookedAppointment_def)
  have h2: "role adminUser = ''admin''" by (simp add: adminUser_def)
  have h3: "\<not> isPatientOf adminUser bookedAppointment"
    by (simp add: isPatientOf_def adminUser_def bookedAppointment_def)
  have h4: "\<not> isDoctorOf bookedStore adminUser bookedAppointment"
    by (simp add: isDoctorOf_def adminUser_def bookedStore_def emptyStore_def doctorA_def)
  have h5: "body_status adminBody \<noteq> Some ''cancelled''"
    by (simp add: adminBody_def emptyBody_def)
  have sel: "defaultSelect (bookedAppointment\<lparr>updatedAt := confirmTime\<rparr>) =
             bookedAppointment\<lparr>updatedAt := confirmTime\<rparr>"
    by (simp add: defaultSelect_def bookedAppointment_def)
  have rf: "replaceFirst 1 (bookedAppointment\<lparr>updatedAt := confirmTime\<rparr>) (appointments bookedStore) =
            [bookedAppointment\<lparr>updatedAt := confirmTime\<rparr>]"
    by (simp add: bookedStore_def bookedAppointment_def)
  from update_admin_only_stamp[OF h1 h2 h3 h4 h5, of confirmTime] h1 h2 h3 h4 h5 sel rf
  show ?thesis by simp
qed

text \<open>
  The claim C10 as written fails on the stamp: the administrator's request changes the
  stored appointment, whose updatedAt moves from the time of the booking to the time of
  the call, and the answer is not the appointment as it was.
\<close>

theorem update_admin_stamp_counterexample:
  "snd (update confirmTime bookedStore adminUser 1 adminBody) \<noteq> bookedStore \<and>
   fst (update confirmTime bookedStore adminUser 1 adminBody) \<noteq> Success 200 (Some bookedAppointment) \<and>
   appointments (snd (update confirmTime bookedStore adminUser 1 adminBody)) =
     [bookedAppointment\<lparr>updatedAt := confirmTime\<rparr>] \<and>
   updatedAt bookedAppointment \<noteq> confirmTime"
proof -
  have u: "update confirmTime bookedStore adminUser 1 adminBody =
     (Success 200 (Some (bookedAppointment\<lparr>updatedAt := confirmTime\<rparr>)),
      bookedStore\<lparr>appointments := [bookedAppointment\<lparr>updatedAt := confirmTime\<rparr>]\<rparr>)"
    by code_simp
  have ne: "updatedAt bookedAppointment \<noteq> confirmTime"
    by (simp add: bookedAppointment_def bookingTime_def confirmTime_def)
  then have diff: "bookedAppointment\<lparr>updatedAt := confirmTime\<rparr> \<noteq> bookedAppointment"
    by (metis appointment_doc.select_convs(21) appointment_doc.surjective appointment_doc.update_convs(21))
  have a1: "appointments (snd (update confirmTime bookedStore adminUser 1 adminBody)) =
              [bookedAppointment\<lparr>updatedAt := confirmTime\<rparr>]"
    using u by simp
  have a2: "appointments bookedStore = [bookedAppointment]"
    by (simp add: bookedStore_def)
  have s: "snd (update confirmTime bookedStore adminUser 1 adminBody) \<noteq> bookedStore"
    using a1 a2 diff by (metis list.inject)
  have f: "fst (update confirmTime bookedStore adminUser 1 adminBody) \<noteq>
             Success 200 (Some bookedAppointment)"
    using u diff by simp
  from s f a1 ne show ?thesis by blast
qed

subsection \<open>Cancelling\<close>

lemma remove_forbidden:
  assumes "findById appt_id (appointments st) i = Some a"
      and "\<not> isPatientOf u a" and "role u \<noteq> ''admin''"
  shows "remove now st u i b = (Failure 403 ''Not authorized'', st)"
  using assms by (simp add: remove_def)

lemma remove_by_owner:
  assumes "findById appt_id (appointments st) i = Some a"
      and "isPatientOf u a" and "role u = ''patient''"
  shows "remove now st u i b =
           (let changed = a\<lparr>status := ''cancelled'', cancelledBy := Some ''patient'',
                            cancellationReason := Some (orElse (body_reason b) ''Cancelled by user'')\<rparr>
            in (Success 200 (),
                if changed = a then st
                else st\<lparr>appointments := replaceFirst i (changed\<lparr>updatedAt := now\<rparr>) (appointments st)\<rparr>))"
  using assms findById_id[OF assms(1)]
  by (simp add: remove_def Let_def statusEnum_def validCancelledBy_def cancelledByEnum_def
      replaceOne_def indexEntry_def duplicateKey_def)

lemma remove_by_admin:
  assumes "findById appt_id (appointments st) i = Some a" and "role u = ''admin''"
  shows "remove now st u i b = (Next ValidationError, st)"
  using assms
  by (simp add: remove_def Let_def statusEnum_def validCancelledBy_def cancelledByEnum_def)

text \<open>
  C9. The claim fails for an administrator who is not the owning patient: remove admits
  the administrator, sets cancelledBy to the role admin, and save refuses the value, which
  is not in the schema's enum for cancelledBy. The appointment stays as it was (lemma
  remove_by_admin for every administrator). For the owning patient and for a stranger the
  code does what the claim says: lemmas remove_by_owner and remove_forbidden.
\<close>

theorem remove_admin_rejected:
  "remove cancelTime bookedStore adminUser 1 reasonBody = (Next ValidationError, bookedStore)"
  by code_simp

subsection \<open>What the writes of update and remove leave alone\<close>

text \<open>
  No update and no remove changes the id, the start, the end or the fee amount of an
  appointment, and remove deletes nothing.
\<close>

lemma update_keeps_snapshot:
  assumes "update now st u i b = (r, st')" and "x' \<in> set (appointments st')"
  shows "\<exists>x \<in> set (appointments st). appt_id x = appt_id x' \<and> dateTime x = dateTime x' \<and>
           appt_endTime x = appt_endTime x' \<and> fee_amount x = fee_amount x'"
proof (cases "appointments st' = appointments st")
  case True
  with assms(2) show ?thesis by auto
next
  case False
  with assms(1) obtain a upd where found: "findById appt_id (appointments st) i = Some a"
    and rep: "replaceOne (uniqueIndexBuilt st) (appointments st) a
                ((applyUpdates upd a)\<lparr>updatedAt := now\<rparr>) = Inr (appointments st')"
    by (auto simp: update_def findByIdAndUpdate_def Let_def
        split: option.splits sum.splits if_splits)
  from rep have "appointments st' =
      replaceFirst (appt_id a) ((applyUpdates upd a)\<lparr>updatedAt := now\<rparr>) (appointments st)"
    by (auto simp: replaceOne_def split: if_splits)
  with assms(2) have "x' = (applyUpdates upd a)\<lparr>updatedAt := now\<rparr> \<or> x' \<in> set (appointments st)"
    using replaceFirst_mem by metis
  moreover have "a \<in> set (appointments st)"
    using found find_Some_holds[of _ "appointments st" a] by (simp add: findById_def)
  ultimately show ?thesis using applyUpdates_frame[of upd a] by auto
qed

lemma remove_keeps_snapshot:
  assumes "remove now st u i b = (r, st')" and "x' \<in> set (appointments st')"
  shows "\<exists>x \<in> set (appointments st). appt_id x = appt_id x' \<and> dateTime x = dateTime x' \<and>
           appt_endTime x = appt_endTime x' \<and> fee_amount x = fee_amount x'"
proof (cases "appointments st' = appointments st")
  case True
  with assms(2) show ?thesis by auto
next
  case False
  with assms(1) obtain a a' where found: "findById appt_id (appointments st) i = Some a"
    and a': "a' = a\<lparr>status := ''cancelled'', cancelledBy := Some (role u),
                     cancellationReason := Some (orElse (body_reason b) ''Cancelled by user''),
                     updatedAt := now\<rparr>"
    and rep: "replaceOne (uniqueIndexBuilt st) (appointments st) a a' = Inr (appointments st')"
    by (auto simp: remove_def Let_def split: option.splits sum.splits if_splits)
  from rep have "appointments st' = replaceFirst (appt_id a) a' (appointments st)"
    by (auto simp: replaceOne_def split: if_splits)
  with assms(2) have "x' = a' \<or> x' \<in> set (appointments st)"
    using replaceFirst_mem by metis
  moreover have "a \<in> set (appointments st)"
    using found find_Some_holds[of _ "appointments st" a] by (simp add: findById_def)
  ultimately show ?thesis using a' by auto
qed

lemma remove_keeps_length:
  assumes "remove now st u i b = (r, st')"
  shows "length (appointments st') = length (appointments st)"
  using assms
  by (auto simp: remove_def Let_def replaceOne_def length_replaceFirst
      split: option.splits sum.splits if_splits)

subsection \<open>Double booking\<close>

text \<open>
  With the index in place the handlers keep the invariant of the collection: the writes
  that would give a doctor a second appointment that is not cancelled at one instant are
  refused by the database.
\<close>

lemma activeAt_indexEntry: "activeAt d t a = (indexEntry a = Some (d, t))"
  by (auto simp: activeAt_def indexEntry_def)

lemma findById_split:
  "findById appt_id apps i = Some a \<Longrightarrow>
   \<exists>xs ys. apps = xs @ a # ys \<and> (\<forall>b \<in> set xs. appt_id b \<noteq> i) \<and>
           (\<forall>a'. replaceFirst i a' apps = xs @ a' # ys)"
proof (induction apps)
  case Nil
  then show ?case by (simp add: findById_def)
next
  case (Cons b bs)
  show ?case
  proof (cases "appt_id b = i")
    case True
    with Cons.prems have "b = a" by (simp add: findById_def)
    with True have "b # bs = [] @ a # bs \<and> (\<forall>x \<in> set []. appt_id x \<noteq> i) \<and>
                    (\<forall>a'. replaceFirst i a' (b # bs) = [] @ a' # bs)" by simp
    then show ?thesis by blast
  next
    case False
    with Cons.prems have "findById appt_id bs i = Some a" by (simp add: findById_def)
    from Cons.IH[OF this] obtain xs ys where
      "bs = xs @ a # ys" "\<forall>x \<in> set xs. appt_id x \<noteq> i" "\<forall>a'. replaceFirst i a' bs = xs @ a' # ys"
      by blast
    with False have "b # bs = (b # xs) @ a # ys \<and> (\<forall>x \<in> set (b # xs). appt_id x \<noteq> i) \<and>
                     (\<forall>a'. replaceFirst i a' (b # bs) = (b # xs) @ a' # ys)" by simp
    then show ?thesis by blast
  qed
qed

lemma insertOne_invariant:
  assumes inv: "storeInvariant apps"
      and fresh: "\<forall>b \<in> set apps. appt_id b \<noteq> appt_id a"
      and ins: "insertOne True apps a = Inr apps'"
  shows "storeInvariant apps'"
proof -
  from ins have apps': "apps' = apps @ [a]" and nodup: "\<not> duplicateKey apps a"
    by (auto simp: insertOne_def split: if_splits)
  have "distinct (map appt_id apps')" using inv fresh apps' by (auto simp: storeInvariant_def)
  moreover have "length (filter (activeAt d t) apps') \<le> 1" for d t
  proof (cases "activeAt d t a")
    case False
    then show ?thesis using inv apps' by (simp add: storeInvariant_def)
  next
    case True
    then have "indexEntry a = Some (d, t)" by (simp add: activeAt_indexEntry)
    with nodup have "\<forall>b \<in> set apps. \<not> activeAt d t b"
      by (simp add: duplicateKey_def activeAt_indexEntry)
    then have "filter (activeAt d t) apps = []" by (simp add: filter_empty_conv)
    then show ?thesis using apps' by simp
  qed
  ultimately show ?thesis by (simp add: storeInvariant_def)
qed

lemma replaceOne_invariant:
  assumes inv: "storeInvariant apps"
      and found: "findById appt_id apps i = Some a"
      and same: "appt_id a' = appt_id a" "doctor a' = doctor a" "dateTime a' = dateTime a"
      and rep: "replaceOne True apps a a' = Inr apps'"
  shows "storeInvariant apps'"
proof -
  have i: "appt_id a = i" using found by (rule findById_id)
  from findById_split[OF found] obtain xs ys where
    apps: "apps = xs @ a # ys" and xs: "\<forall>b \<in> set xs. appt_id b \<noteq> i"
    and rf: "\<forall>a'. replaceFirst i a' apps = xs @ a' # ys" by blast
  from inv apps i have "i \<notin> appt_id ` set ys"
    by (simp add: storeInvariant_def)
  then have ys: "\<forall>b \<in> set ys. appt_id b \<noteq> i" by (metis imageI)
  from rep have apps': "apps' = xs @ a' # ys"
    and chk: "indexEntry a' = indexEntry a \<or>
              \<not> duplicateKey (filter (\<lambda>b. appt_id b \<noteq> appt_id a) apps) a'"
    using rf i by (auto simp: replaceOne_def split: if_splits)
  have others: "filter (\<lambda>b. appt_id b \<noteq> appt_id a) apps = xs @ ys"
    using apps xs ys i by (simp add: filter_id_conv)
  have "distinct (map appt_id apps')" using inv apps apps' same by (simp add: storeInvariant_def)
  moreover have "length (filter (activeAt d t) apps') \<le> 1" for d t
  proof -
    have old: "length (filter (activeAt d t) apps) \<le> 1" using inv by (simp add: storeInvariant_def)
    show ?thesis
    proof (cases "activeAt d t a'")
      case False
      then show ?thesis using old apps apps' by (simp split: if_splits)
    next
      case act: True
      show ?thesis
      proof (cases "indexEntry a' = indexEntry a")
        case True
        with act have "activeAt d t a" by (simp add: activeAt_indexEntry)
        with act show ?thesis using old apps apps' by simp
      next
        case False
        with chk have "\<not> duplicateKey (xs @ ys) a'" by (simp add: others)
        with act have "\<forall>b \<in> set (xs @ ys). \<not> activeAt d t b"
          by (simp add: duplicateKey_def activeAt_indexEntry)
        then have "filter (activeAt d t) xs = []" "filter (activeAt d t) ys = []"
          by (simp_all add: filter_empty_conv)
        then show ?thesis using apps' by simp
      qed
    qed
  qed
  ultimately show ?thesis by (simp add: storeInvariant_def)
qed

text \<open>A store keeps its flag through every step.\<close>

lemma create_flag:
  "create now st u b = (r, st') \<Longrightarrow> uniqueIndexBuilt st' = uniqueIndexBuilt st"
  unfolding create_unfold
  by (simp add: Let_def split: option.splits js_date.splits sum.splits if_splits) auto

lemma update_flag:
  "update now st u i b = (r, st') \<Longrightarrow> uniqueIndexBuilt st' = uniqueIndexBuilt st"
  unfolding update_def
  by (simp add: Let_def split: option.splits sum.splits if_splits prod.splits) auto

lemma remove_flag:
  "remove now st u i b = (r', st') \<Longrightarrow> uniqueIndexBuilt st' = uniqueIndexBuilt st"
  unfolding remove_def
  by (simp add: Let_def split: option.splits sum.splits if_splits) auto

lemma create_invariant:
  assumes "uniqueIndexBuilt st" "storeInvariant (appointments st)" "create now st u b = (r, st')"
  shows "storeInvariant (appointments st')"
proof (cases "appointments st' = appointments st")
  case True
  with assms show ?thesis by simp
next
  case False
  with assms(3) obtain doc dt where
    ins: "appointmentCreate (uniqueIndexBuilt st) (appointments st) b
            (timeClip (dt + slotDuration doc * msPerMinute))
            (newAppointment now (appointments st) u (doctor_id doc) doc dt
               (dt + slotDuration doc * msPerMinute) b) = Inr (appointments st')"
    by (auto simp: create_unfold Let_def split: option.splits js_date.splits sum.splits if_splits)
  let ?a = "newAppointment now (appointments st) u (doctor_id doc) doc dt
              (dt + slotDuration doc * msPerMinute) b"
  from ins assms(1) have "insertOne True (appointments st) ?a = Inr (appointments st')"
    by (simp add: appointmentCreate_def split: if_splits)
  moreover have "\<forall>x \<in> set (appointments st). appt_id x \<noteq> appt_id ?a"
    using newId_fresh by (fastforce simp: newAppointment_def)
  ultimately show ?thesis using assms(2) insertOne_invariant by blast
qed

lemma update_invariant:
  assumes "uniqueIndexBuilt st" "storeInvariant (appointments st)" "update now st u i b = (r, st')"
  shows "storeInvariant (appointments st')"
proof (cases "appointments st' = appointments st")
  case True
  with assms(2) show ?thesis by simp
next
  case False
  with assms(3) obtain a upd where found: "findById appt_id (appointments st) i = Some a"
    and rep: "replaceOne (uniqueIndexBuilt st) (appointments st) a
                ((applyUpdates upd a)\<lparr>updatedAt := now\<rparr>) = Inr (appointments st')"
    by (auto simp: update_def findByIdAndUpdate_def Let_def
        split: option.splits sum.splits if_splits)
  from rep assms(1) have rep': "replaceOne True (appointments st) a
                ((applyUpdates upd a)\<lparr>updatedAt := now\<rparr>) = Inr (appointments st')" by simp
  from replaceOne_invariant[OF assms(2) found _ _ _ rep'] show ?thesis
    by (simp add: applyUpdates_frame)
qed

lemma remove_invariant:
  assumes "uniqueIndexBuilt st" "storeInvariant (appointments st)" "remove now st u i b = (r, st')"
  shows "storeInvariant (appointments st')"
proof (cases "appointments st' = appointments st")
  case True
  with assms(2) show ?thesis by simp
next
  case False
  with assms(3) obtain a a' where found: "findById appt_id (appointments st) i = Some a"
    and a': "a' = a\<lparr>status := ''cancelled'', cancelledBy := Some (role u),
                     cancellationReason := Some (orElse (body_reason b) ''Cancelled by user''),
                     updatedAt := now\<rparr>"
    and rep: "replaceOne (uniqueIndexBuilt st) (appointments st) a a' = Inr (appointments st')"
    by (auto simp: remove_def Let_def split: option.splits sum.splits if_splits)
  from rep assms(1) have rep': "replaceOne True (appointments st) a a' = Inr (appointments st')"
    by simp
  from replaceOne_invariant[OF assms(2) found _ _ _ rep'] a' show ?thesis by simp
qed

lemma reachable_invariant:
  "reachable st \<Longrightarrow> uniqueIndexBuilt st \<Longrightarrow> storeInvariant (appointments st)"
proof (induction rule: reachable.induct)
  case (initial st)
  then show ?case by (simp add: storeInvariant_def)
next
  case (doctorsWritten st ds)
  then show ?case by simp
next
  case (created st now reqUser b r st')
  from created.hyps(2) created.prems have "uniqueIndexBuilt st" by (simp add: create_flag)
  with created show ?case using create_invariant by blast
next
  case (updated st now reqUser i b r st')
  from updated.hyps(2) updated.prems have "uniqueIndexBuilt st" by (simp add: update_flag)
  with updated show ?case using update_invariant by blast
next
  case (removed st now reqUser i b r' st')
  from removed.hyps(2) removed.prems have "uniqueIndexBuilt st" by (simp add: remove_flag)
  with removed show ?case using remove_invariant by blast
qed

lemma unique_with_index:
  "reachable st \<Longrightarrow> uniqueIndexBuilt st \<Longrightarrow> length (filter (activeAt d t) (appointments st)) \<le> 1"
  using reachable_invariant by (simp add: storeInvariant_def)

text \<open>The four requests of the example, one after the other, on the server as it runs.\<close>

lemma remove_booking:
  "remove cancelTime bookedStore patientUser 1 emptyBody = (Success 200 (), cancelledStore)"
  by code_simp

lemma create_rebooking:
  "create rebookTime cancelledStore otherPatient bookingBody =
     (Success 201 (Some rebookedAppointment), rebookedStore)"
  by code_simp

lemma update_reviving:
  "update confirmTime rebookedStore doctorUser 1 confirmBody =
     (Success 200 (Some revivedAppointment), doubleBookedStore)"
  by code_simp

lemma reachable_doubleBookedStore: "reachable doubleBookedStore"
proof -
  have "reachable emptyStore" by (rule reachable.initial) (simp add: emptyStore_def)
  then have "reachable bookedStore" using create_booking by (rule reachable.created)
  then have "reachable cancelledStore" using remove_booking by (rule reachable.removed)
  then have "reachable rebookedStore" using create_rebooking by (rule reachable.created)
  then show ?thesis using update_reviving by (rule reachable.updated)
qed

text \<open>With the index in place the database refuses the last of the four requests.\<close>

lemma update_reviving_refused:
  "update confirmTime (rebookedStore\<lparr>uniqueIndexBuilt := True\<rparr>) doctorUser 1 confirmBody =
     (Next DuplicateKey, rebookedStore\<lparr>uniqueIndexBuilt := True\<rparr>)"
  by code_simp

text \<open>
  C1. The claim fails on the server as it runs. The declared index filters with
  \<open>$ne\<close>, which the database does not admit in a partial filter, so the index is not
  built and no write is refused. A patient books Monday 09:00 with doctor 7 and cancels;
  a second patient books the same slot; the doctor then sets the cancelled appointment to
  confirmed through update, which makes no availability check. The doctor now has two
  appointments that are not cancelled at that instant.
\<close>

theorem double_booking_reached:
  "\<not> indexBuilds doubleBookingIndex \<and>
   \<not> uniqueIndexBuilt emptyStore \<and>
   create bookingTime emptyStore patientUser bookingBody =
     (Success 201 (Some bookedAppointment), bookedStore) \<and>
   remove cancelTime bookedStore patientUser 1 emptyBody = (Success 200 (), cancelledStore) \<and>
   create rebookTime cancelledStore otherPatient bookingBody =
     (Success 201 (Some rebookedAppointment), rebookedStore) \<and>
   update confirmTime rebookedStore doctorUser 1 confirmBody =
     (Success 200 (Some revivedAppointment), doubleBookedStore) \<and>
   filter (activeAt 7 nineOClock) (appointments doubleBookedStore) =
     [revivedAppointment, rebookedAppointment]"
proof -
  have ix: "\<not> indexBuilds doubleBookingIndex"
    by (simp add: indexBuilds_def doubleBookingIndex_def)
  then have fl: "\<not> uniqueIndexBuilt emptyStore" by (simp add: emptyStore_def)
  have two: "filter (activeAt 7 nineOClock) (appointments doubleBookedStore) =
               [revivedAppointment, rebookedAppointment]"
    by (simp add: doubleBookedStore_def emptyStore_def activeAt_def revivedAppointment_def
        cancelledAppointment_def rebookedAppointment_def bookedAppointment_def)
  from ix fl create_booking remove_booking create_rebooking update_reviving two
  show ?thesis by blast
qed

end
